theory Spec2Isabelle
  imports Complex_Main
begin

section \<open>The metrics example program\<close>

text \<open>
  The program under study is one Go file, \<^verbatim>\<open>examples/golang_prom_metrics/main.go\<close>:
  two package-level instruments (\<^verbatim>\<open>requestsTotal\<close>, \<^verbatim>\<open>requestDuration\<close>), an
  \<^verbatim>\<open>init\<close> that registers both with the client library's default registry, a background
  loop \<^verbatim>\<open>updateMetrics\<close> and a \<^verbatim>\<open>main\<close> that mounts the exposition handler on
  \<^verbatim>\<open>/metrics\<close> and listens on \<^verbatim>\<open>:8080\<close>.

  The file calls into the metrics client library, \<^verbatim>\<open>net/http\<close>, \<^verbatim>\<open>log\<close> and
  \<^verbatim>\<open>time\<close>. None of that code is part of the repository. Each library operation the
  file calls is modelled below by what the specification says of it, and is marked as such;
  the control flow, the constants and the order of the calls are those of \<^verbatim>\<open>main.go\<close>.
\<close>

subsection \<open>Instruments\<close>

text \<open>
  The descriptor of an instrument: the \<^verbatim>\<open>Name\<close> and \<^verbatim>\<open>Help\<close> fields of
  \<^verbatim>\<open>CounterOpts\<close> and \<^verbatim>\<open>HistogramOpts\<close>.
\<close>

record Desc =
  fqName :: string
  helpText :: string

text \<open>
  Modelled from the spec: the library type \<^verbatim>\<open>prometheus.Counter\<close> (absent from the
  sources). "A single monotonically non-decreasing numeric value, identified by a fixed name and
  help text. Mutated only by increment." The library stores a 64-bit float; the model keeps an
  unbounded natural number, so the rounding of very large counts is outside the model.
\<close>

record Counter =
  cDesc :: Desc
  cValue :: nat

text \<open>
  Modelled from the spec: the library type \<^verbatim>\<open>prometheus.Histogram\<close> (absent from the
  sources). "A numeric distribution summarized by a fixed, predefined set of upper-bound buckets
  plus a running sum and count." Each bucket is kept as its upper bound with its cumulative
  count, the form in which the exposition shows it; the bucket \<^verbatim>\<open>+Inf\<close> is the total
  count \<open>hCount\<close>. Observed values are 64-bit floats in the library and real numbers
  here.
\<close>

record Histogram =
  hDesc :: Desc
  hBuckets :: "(real \<times> nat) list"
  hSum :: real
  hCount :: nat

text \<open>
  Modelled from the spec: the library constant \<^verbatim>\<open>prometheus.DefBuckets\<close> (absent from
  the sources), "a conventional default bucket-boundary set (sub-second to multi-second
  boundaries spanning roughly 0.005 to 10)". The values are the eleven boundaries the client
  library publishes.
\<close>

definition DefBuckets :: "real list" where
  "DefBuckets = [5 / 1000, 1 / 100, 25 / 1000, 5 / 100, 1 / 10, 25 / 100, 5 / 10, 1, 25 / 10, 5, 10]"

text \<open>
  Modelled from the spec: the library constructors \<^verbatim>\<open>NewCounter\<close> and
  \<^verbatim>\<open>NewHistogram\<close> (absent from the sources): an instrument is "created once at process
  start" with its fixed metadata, and reads zero until it is mutated.
\<close>

definition NewCounter :: "string \<Rightarrow> string \<Rightarrow> Counter" where
  "NewCounter n h = \<lparr>cDesc = \<lparr>fqName = n, helpText = h\<rparr>, cValue = 0\<rparr>"

definition NewHistogram :: "string \<Rightarrow> string \<Rightarrow> real list \<Rightarrow> Histogram" where
  "NewHistogram n h bs =
     \<lparr>hDesc = \<lparr>fqName = n, helpText = h\<rparr>, hBuckets = map (\<lambda>b. (b, 0)) bs, hSum = 0, hCount = 0\<rparr>"

text \<open>
  Modelled from the spec: the library method \<^verbatim>\<open>Counter.Inc\<close> (absent from the sources),
  "increment Counter by 1".
\<close>

definition Inc :: "Counter \<Rightarrow> Counter" where
  "Inc c = c\<lparr>cValue := cValue c + 1\<rparr>"

text \<open>
  Modelled from the spec: the library method \<^verbatim>\<open>Histogram.Observe\<close> (absent from the
  sources): "an input value is bucketed into all buckets whose upper bound is \<open>\<ge>\<close> the value,
  and the cumulative sum/count are updated".
\<close>

definition Observe :: "real \<Rightarrow> Histogram \<Rightarrow> Histogram" where
  "Observe v h =
     h\<lparr>hBuckets := map (\<lambda>(b, n). (b, if v \<le> b then n + 1 else n)) (hBuckets h),
       hSum := hSum h + v,
       hCount := hCount h + 1\<rparr>"

subsection \<open>The state of the process\<close>

text \<open>
  What the default registry holds is a reference to a collector, never a copy: the two
  package-level variables of \<^verbatim>\<open>main.go\<close>, or a collector the library registered
  itself before \<^verbatim>\<open>init\<close> ran, known here by its name only.
\<close>

datatype Collector = RequestsTotal | RequestDuration | Preregistered string

text \<open>
  The background loop is followed statement by statement: \<open>pc\<close> is the statement of
  \<^verbatim>\<open>updateMetrics\<close> that runs next (lines 31, 32 and 33 of \<^verbatim>\<open>main.go\<close>), or
  \<open>NotStarted\<close> as long as \<^verbatim>\<open>main\<close> has not reached \<^verbatim>\<open>go updateMetrics()\<close>.
\<close>

datatype PC = NotStarted | AtInc | AtObserve | AtSleep

text \<open>
  What the loop has done so far, in order: an increment, an observation with its value, a
  request to sleep with its duration in nanoseconds.
\<close>

datatype Event = IncEv | ObserveEv real | SleepEv int

record World =
  requestsTotal :: Counter
  requestDuration :: Histogram
  registry :: "Collector list"
  pc :: PC
  slept :: nat
  trace :: "Event list"

text \<open>
  What the program cannot choose: the names the library's default registry already holds when
  \<^verbatim>\<open>init\<close> runs, the listen addresses that cannot be bound, and the wall clock, given as
  the value \<^verbatim>\<open>time.Now().UnixNano()\<close> returns in each cycle of the loop (cycles are
  numbered from 0).
\<close>

record Env =
  preregistered :: "string list"
  busy :: "string list"
  now :: "nat \<Rightarrow> int"

text \<open>Lines 12 to 22: the package-level variables, before \<^verbatim>\<open>init\<close> runs.\<close>

definition boot :: "Env \<Rightarrow> World" where
  "boot env =
     \<lparr>requestsTotal = NewCounter ''requests_total'' ''Total number of requests'',
      requestDuration =
        NewHistogram ''request_duration_seconds'' ''Duration of requests in seconds'' DefBuckets,
      registry = map Preregistered (preregistered env),
      pc = NotStarted,
      slept = 0,
      trace = []\<rparr>"

subsection \<open>The updater loop\<close>

text \<open>\<^verbatim>\<open>time.Second\<close>, in nanoseconds.\<close>

definition Second :: int where
  "Second = 1000000000"

text \<open>Line 38: the new goroutine stands at the first statement of the loop.\<close>

definition go_updateMetrics :: "World \<Rightarrow> World" where
  "go_updateMetrics w = w\<lparr>pc := AtInc\<rparr>"

text \<open>
  One statement of the body of \<^verbatim>\<open>updateMetrics\<close>; a loop that was not started does
  nothing. The observed value is
  \<^verbatim>\<open>float64(time.Now().UnixNano()) / 1e9\<close>; the conversion to a 64-bit float is taken as
  exact. \<^verbatim>\<open>time.Sleep\<close> returns nothing and changes no instrument: the model counts the
  sleeps that have returned and records the duration that was asked for.
\<close>

definition step :: "Env \<Rightarrow> World \<Rightarrow> World" where
  "step env w =
     (case pc w of
        NotStarted \<Rightarrow> w
      | AtInc \<Rightarrow>
          w\<lparr>requestsTotal := Inc (requestsTotal w), trace := trace w @ [IncEv], pc := AtObserve\<rparr>
      | AtObserve \<Rightarrow>
          (let v = real_of_int (now env (slept w)) / 1000000000
           in w\<lparr>requestDuration := Observe v (requestDuration w),
                trace := trace w @ [ObserveEv v],
                pc := AtSleep\<rparr>)
      | AtSleep \<Rightarrow>
          w\<lparr>slept := slept w + 1, trace := trace w @ [SleepEv (5 * Second)], pc := AtInc\<rparr>)"

text \<open>One pass through the body of the \<^verbatim>\<open>for\<close> loop: lines 31, 32, 33.\<close>

definition body :: "Env \<Rightarrow> World \<Rightarrow> World" where
  "body env w = step env (step env (step env w))"

text \<open>
  \<^verbatim>\<open>for { ... }\<close> has no condition and the body has no \<^verbatim>\<open>break\<close> or
  \<^verbatim>\<open>return\<close>: a result \<open>Some ()\<close> would be the function returning.
\<close>

partial_function (option) updateMetrics :: "Env \<Rightarrow> World \<Rightarrow> unit option" where
  "updateMetrics env w = updateMetrics env (body env w)"

subsection \<open>Registration\<close>

text \<open>
  The two ways the process can stop itself, with the error each one prints on the error stream.
\<close>

datatype Error = AlreadyRegisteredError string | BindError string

datatype Halt = Panic Error | Fatal Error

text \<open>
  The exit status of the process: 2 for a panic that nothing recovers (the Go runtime), 1 for
  \<^verbatim>\<open>log.Fatal\<close>, which prints its argument and calls \<^verbatim>\<open>os.Exit(1)\<close>.
\<close>

fun exitStatus :: "Halt \<Rightarrow> nat" where
  "exitStatus (Panic e) = 2"
| "exitStatus (Fatal e) = 1"

fun printed :: "Halt \<Rightarrow> Error" where
  "printed (Panic e) = e"
| "printed (Fatal e) = e"

text \<open>The name under which a collector is registered.\<close>

fun describe :: "World \<Rightarrow> Collector \<Rightarrow> string" where
  "describe w RequestsTotal = fqName (cDesc (requestsTotal w))"
| "describe w RequestDuration = fqName (hDesc (requestDuration w))"
| "describe w (Preregistered n) = n"

text \<open>
  Modelled from the spec: the library's \<^verbatim>\<open>Register\<close> on the default registry (absent
  from the sources): "attempting to register a second instrument under the same name is an
  error".
\<close>

definition Register :: "Collector \<Rightarrow> World \<Rightarrow> Error + World" where
  "Register c w =
     (if describe w c \<in> set (map (describe w) (registry w))
      then Inl (AlreadyRegisteredError (describe w c))
      else Inr (w\<lparr>registry := registry w @ [c]\<rparr>))"

text \<open>
  Modelled from the spec: the library's \<^verbatim>\<open>MustRegister\<close> (absent from the sources), which
  panics with the error of \<^verbatim>\<open>Register\<close>: "a fatal configuration error".
\<close>

definition MustRegister :: "Collector \<Rightarrow> World \<Rightarrow> Halt + World" where
  "MustRegister c w = (case Register c w of Inl e \<Rightarrow> Inl (Panic e) | Inr w' \<Rightarrow> Inr w')"

text \<open>
  Lines 24 to 27. Nothing recovers a panic of the first call, so the second call is not reached
  then.
\<close>

definition init :: "World \<Rightarrow> Halt + World" where
  "init w =
     (case MustRegister RequestsTotal w of
        Inl h \<Rightarrow> Inl h
      | Inr w1 \<Rightarrow> MustRegister RequestDuration w1)"

subsection \<open>Exposition\<close>

text \<open>
  What the exposition shows of one collector: name, help text and current value. Of a collector
  the library registered itself only the name is known.
\<close>

datatype MetricFamily =
  CounterFamily string string nat
| HistogramFamily string string "(real \<times> nat) list" real nat
| OtherFamily string

fun collect :: "World \<Rightarrow> Collector \<Rightarrow> MetricFamily" where
  "collect w RequestsTotal =
     CounterFamily (fqName (cDesc (requestsTotal w))) (helpText (cDesc (requestsTotal w)))
       (cValue (requestsTotal w))"
| "collect w RequestDuration =
     HistogramFamily (fqName (hDesc (requestDuration w))) (helpText (hDesc (requestDuration w)))
       (hBuckets (requestDuration w)) (hSum (requestDuration w)) (hCount (requestDuration w))"
| "collect w (Preregistered n) = OtherFamily n"

text \<open>
  Modelled from the spec: the library's \<^verbatim>\<open>Gather\<close> on the default registry (absent from
  the sources): it "reads the Registry, serializes all registered instruments' current values".
\<close>

definition Gather :: "World \<Rightarrow> MetricFamily list" where
  "Gather w = map (collect w) (registry w)"

subsection \<open>The HTTP server\<close>

text \<open>\<^verbatim>\<open>promhttp.Handler()\<close> is the only handler the program mounts.\<close>

datatype Handler = MetricsHandler

type_synonym ServeMux = "(string \<times> Handler) list"

text \<open>\<^verbatim>\<open>http.Handle\<close> adds a pattern to the default multiplexer.\<close>

definition Handle :: "string \<Rightarrow> Handler \<Rightarrow> ServeMux \<Rightarrow> ServeMux" where
  "Handle pattern h m = m @ [(pattern, h)]"

record Server =
  addr :: string
  mux :: ServeMux

record Request =
  reqMethod :: string
  reqPath :: string

record Response =
  status :: nat
  respBody :: "MetricFamily list"

text \<open>
  Modelled from the spec: \<^verbatim>\<open>http.ListenAndServe\<close> (absent from the sources) returns an
  error when "the HTTP listener cannot bind (e.g., port already in use)"; while it serves it
  does not return.
\<close>

definition ListenAndServe :: "Env \<Rightarrow> string \<Rightarrow> Error option" where
  "ListenAndServe env a = (if a \<in> set (busy env) then Some (BindError a) else None)"

text \<open>
  Modelled from the spec: the exposition handler (absent from the sources) answers "with a 200
  status" and the gathered families. A pattern without a trailing slash matches its own path
  only; \<open>None\<close> is a request that no handler of the program receives.
\<close>

definition ServeHTTP :: "Server \<Rightarrow> World \<Rightarrow> Request \<Rightarrow> Response option" where
  "ServeHTTP srv w rq =
     (case map_of (mux srv) (reqPath rq) of
        None \<Rightarrow> None
      | Some MetricsHandler \<Rightarrow> Some \<lparr>status = 200, respBody = Gather w\<rparr>)"

subsection \<open>The process\<close>

text \<open>
  How the process goes: it stops itself, or it serves, with the server as configured and the
  state of the world at the moment the loop was started. The worlds that requests can see later
  are the ones the loop reaches from there, statement by statement.
\<close>

datatype Outcome = Halted Halt | Serving Server World

text \<open>
  Lines 37 to 42: the loop is started, the handler is mounted on the default multiplexer (empty
  until then, and the one \<^verbatim>\<open>ListenAndServe\<close> uses when its handler is \<^verbatim>\<open>nil\<close>), and
  \<^verbatim>\<open>log.Fatal\<close> receives whatever \<^verbatim>\<open>ListenAndServe\<close> returns. A process that exits
  takes its loop with it.
\<close>

definition main :: "Env \<Rightarrow> World \<Rightarrow> Outcome" where
  "main env w =
     (let w1 = go_updateMetrics w;
          m = Handle ''/metrics'' MetricsHandler []
      in case ListenAndServe env '':8080'' of
           Some err \<Rightarrow> Halted (Fatal err)
         | None \<Rightarrow> Serving \<lparr>addr = '':8080'', mux = m\<rparr> w1)"

text \<open>
  The Go runtime initialises the package-level variables, runs \<^verbatim>\<open>init\<close> and only then
  \<^verbatim>\<open>main\<close>.
\<close>

definition program :: "Env \<Rightarrow> Outcome" where
  "program env = (case init (boot env) of Inl h \<Rightarrow> Halted h | Inr w \<Rightarrow> main env w)"

subsection \<open>A sample environment\<close>

text \<open>
  An environment on which the theorems below are exercised: the default registry holds one
  collector of the library's own, port 8080 is free, and the clock reads 1700000000 seconds
  after the epoch in the first cycle and five seconds more in each later one.
\<close>

definition exampleEnv :: Env where
  "exampleEnv =
     \<lparr>preregistered = [''go_goroutines''],
      busy = [],
      now = (\<lambda>i. 1700000000000000000 + 5000000000 * int i)\<rparr>"

text \<open>The world that \<^verbatim>\<open>init\<close> leaves in the sample environment.\<close>

definition exampleInit :: World where
  "exampleInit =
     (boot exampleEnv)\<lparr>registry := [Preregistered ''go_goroutines'', RequestsTotal, RequestDuration]\<rparr>"

section \<open>The updater loop\<close>

subsection \<open>One pass and many\<close>

lemma body_AtInc:
  "pc w = AtInc \<Longrightarrow>
   body env w =
     w\<lparr>requestsTotal := Inc (requestsTotal w),
       requestDuration := Observe (real_of_int (now env (slept w)) / 1000000000) (requestDuration w),
       slept := slept w + 1,
       trace := trace w @ [IncEv, ObserveEv (real_of_int (now env (slept w)) / 1000000000),
                           SleepEv (5 * Second)],
       pc := AtInc\<rparr>"
  by (simp add: body_def step_def Let_def)

lemma body_steps: "(body env ^^ n) w = (step env ^^ (3 * n)) w"
  by (induction n) (simp_all add: body_def funpow_add eval_nat_numeral)

lemma pc_cycles:
  "pc w = AtInc \<Longrightarrow> pc ((body env ^^ n) w) = AtInc"
  by (induction n) (simp_all add: body_AtInc)

lemma slept_cycles:
  "pc w = AtInc \<Longrightarrow> slept ((body env ^^ n) w) = slept w + n"
  by (induction n) (simp_all add: body_AtInc pc_cycles)

lemma cValue_cycles:
  "pc w = AtInc \<Longrightarrow>
   cValue (requestsTotal ((body env ^^ n) w)) = cValue (requestsTotal w) + n"
  by (induction n) (simp_all add: body_AtInc pc_cycles Inc_def)

lemma hCount_cycles:
  "pc w = AtInc \<Longrightarrow>
   hCount (requestDuration ((body env ^^ n) w)) = hCount (requestDuration w) + n"
  by (induction n) (simp_all add: body_AtInc pc_cycles Observe_def)

lemma hSum_cycles:
  "pc w = AtInc \<Longrightarrow>
   hSum (requestDuration ((body env ^^ n) w)) =
     hSum (requestDuration w) + (\<Sum>i<n. real_of_int (now env (slept w + i)) / 1000000000)"
  by (induction n) (simp_all add: body_AtInc pc_cycles slept_cycles Observe_def)

lemma trace_cycles:
  "pc w = AtInc \<Longrightarrow>
   trace ((body env ^^ n) w) =
     trace w @
     concat (map (\<lambda>i. [IncEv, ObserveEv (real_of_int (now env (slept w + i)) / 1000000000),
                         SleepEv (5 * Second)]) [0..<n])"
  by (induction n) (simp_all add: body_AtInc pc_cycles slept_cycles)

lemma cValue_step_mono:
  "cValue (requestsTotal w) \<le> cValue (requestsTotal (step env w))"
  by (cases "pc w") (simp_all add: step_def Inc_def Let_def)

subsection \<open>What the loop leaves alone\<close>

lemma step_registry: "registry (step env w) = registry w"
  by (cases "pc w") (simp_all add: step_def Let_def)

lemma step_cDesc: "cDesc (requestsTotal (step env w)) = cDesc (requestsTotal w)"
  by (cases "pc w") (simp_all add: step_def Let_def Inc_def)

lemma step_hDesc: "hDesc (requestDuration (step env w)) = hDesc (requestDuration w)"
  by (cases "pc w") (simp_all add: step_def Let_def Observe_def)

lemma steps_frame:
  "registry ((step env ^^ n) w) = registry w \<and>
   cDesc (requestsTotal ((step env ^^ n) w)) = cDesc (requestsTotal w) \<and>
   hDesc (requestDuration ((step env ^^ n) w)) = hDesc (requestDuration w)"
  by (induction n) (simp_all add: step_registry step_cDesc step_hDesc)

lemma bounds_step:
  "map fst (hBuckets (requestDuration (step env w))) = map fst (hBuckets (requestDuration w))"
  by (cases "pc w") (simp_all add: step_def Let_def Observe_def comp_def case_prod_beta)

lemma bounds_steps:
  "map fst (hBuckets (requestDuration ((step env ^^ n) w))) = map fst (hBuckets (requestDuration w))"
  by (induction n) (simp_all add: bounds_step)

subsection \<open>Counting sleeps against mutations\<close>

lemma counts_step:
  assumes "pc w \<noteq> NotStarted"
    and "cValue (requestsTotal w) = slept w + (if pc w = AtInc then 0 else 1)"
    and "hCount (requestDuration w) = slept w + (if pc w = AtSleep then 1 else 0)"
  shows "pc (step env w) \<noteq> NotStarted \<and>
         cValue (requestsTotal (step env w)) =
           slept (step env w) + (if pc (step env w) = AtInc then 0 else 1) \<and>
         hCount (requestDuration (step env w)) =
           slept (step env w) + (if pc (step env w) = AtSleep then 1 else 0)"
  using assms by (cases "pc w") (simp_all add: step_def Let_def Inc_def Observe_def)

lemma loop_counts:
  assumes "pc w = AtInc" "slept w = 0"
    and "cValue (requestsTotal w) = 0" "hCount (requestDuration w) = 0"
  shows "pc ((step env ^^ n) w) \<noteq> NotStarted \<and>
         cValue (requestsTotal ((step env ^^ n) w)) =
           slept ((step env ^^ n) w) + (if pc ((step env ^^ n) w) = AtInc then 0 else 1) \<and>
         hCount (requestDuration ((step env ^^ n) w)) =
           slept ((step env ^^ n) w) + (if pc ((step env ^^ n) w) = AtSleep then 1 else 0)"
proof (induction n)
  case 0
  show ?case using assms by simp
next
  case (Suc n)
  then show ?case
    using counts_step [where w = "(step env ^^ n) w" and env = env] by simp
qed

lemma pc_slept_steps:
  assumes "pc w = AtInc" "slept w = 0"
  shows "pc ((step env ^^ (3 * k + 2)) w) = AtSleep \<and> slept ((step env ^^ (3 * k + 2)) w) = k"
proof -
  have "(step env ^^ (3 * k + 2)) w = step env (step env ((body env ^^ k) w))"
    by (simp add: body_steps funpow_add eval_nat_numeral add.commute)
  then show ?thesis
    using pc_cycles [OF assms(1), where env = env and n = k]
          slept_cycles [OF assms(1), where env = env and n = k] assms(2)
    by (simp add: step_def Let_def)
qed

subsection \<open>The loop does not return\<close>

lemma updateMetrics_never_returns: "updateMetrics env w = None"
proof (cases "updateMetrics env w")
  case None
  then show ?thesis .
next
  case (Some u)
  then have False
    using updateMetrics.raw_induct [where P = "\<lambda>_ _ _. False" and env = env and w = w and y = u]
    by blast
  then show ?thesis ..
qed

section \<open>Registration, exposition and the server\<close>

lemma describe_registry [simp]: "describe (w\<lparr>registry := r\<rparr>) c = describe w c"
  by (cases c) simp_all

lemma MustRegister_duplicate:
  "describe w c \<in> set (map (describe w) (registry w)) \<Longrightarrow>
   MustRegister c w = Inl (Panic (AlreadyRegisteredError (describe w c)))"
  by (simp add: MustRegister_def Register_def)

lemma MustRegister_twice:
  "MustRegister c w = Inr w' \<Longrightarrow>
   MustRegister c w' = Inl (Panic (AlreadyRegisteredError (describe w c)))"
  by (auto simp: MustRegister_def Register_def split: if_splits)

lemma init_Inl:
  "init w = Inl h \<Longrightarrow> exitStatus h = 2 \<and> (\<exists>n. h = Panic (AlreadyRegisteredError n))"
  by (auto simp: init_def MustRegister_def Register_def split: sum.splits if_splits)

lemma init_first_duplicate:
  "''requests_total'' \<in> set (preregistered env) \<Longrightarrow>
   init (boot env) = Inl (Panic (AlreadyRegisteredError ''requests_total''))"
  by (simp add: init_def MustRegister_def Register_def boot_def NewCounter_def image_image)

lemma init_second_duplicate:
  "''requests_total'' \<notin> set (preregistered env) \<Longrightarrow>
   ''request_duration_seconds'' \<in> set (preregistered env) \<Longrightarrow>
   init (boot env) = Inl (Panic (AlreadyRegisteredError ''request_duration_seconds''))"
  by (simp add: init_def MustRegister_def Register_def boot_def NewCounter_def NewHistogram_def
        image_image)

lemma init_boot:
  "init (boot env) = Inr w1 \<Longrightarrow>
   w1 = (boot env)\<lparr>registry := map Preregistered (preregistered env) @ [RequestsTotal, RequestDuration]\<rparr> \<and>
   ''requests_total'' \<notin> set (preregistered env) \<and>
   ''request_duration_seconds'' \<notin> set (preregistered env)"
  by (auto simp: init_def MustRegister_def Register_def boot_def NewCounter_def NewHistogram_def
        image_image split: sum.splits if_splits)

text \<open>The world in which the loop starts: fresh instruments, both registered.\<close>

lemma started:
  assumes "init (boot env) = Inr w1"
  shows "pc (go_updateMetrics w1) = AtInc"
    and "slept (go_updateMetrics w1) = 0"
    and "trace (go_updateMetrics w1) = []"
    and "requestsTotal (go_updateMetrics w1) =
           NewCounter ''requests_total'' ''Total number of requests''"
    and "requestDuration (go_updateMetrics w1) =
           NewHistogram ''request_duration_seconds'' ''Duration of requests in seconds'' DefBuckets"
    and "registry (go_updateMetrics w1) =
           map Preregistered (preregistered env) @ [RequestsTotal, RequestDuration]"
  using init_boot [OF assms] by (simp_all add: go_updateMetrics_def boot_def)

lemma started_values:
  assumes "init (boot env) = Inr w1"
  shows "cValue (requestsTotal (go_updateMetrics w1)) = 0"
    and "hCount (requestDuration (go_updateMetrics w1)) = 0"
    and "hSum (requestDuration (go_updateMetrics w1)) = 0"
    and "hBuckets (requestDuration (go_updateMetrics w1)) = map (\<lambda>b. (b, 0)) DefBuckets"
  by (simp_all add: started [OF assms] NewCounter_def NewHistogram_def)

lemma Gather_steps:
  assumes "init (boot env) = Inr w1"
  shows "Gather ((step env ^^ n) (go_updateMetrics w1)) =
         map OtherFamily (preregistered env) @
         [CounterFamily ''requests_total'' ''Total number of requests''
            (cValue (requestsTotal ((step env ^^ n) (go_updateMetrics w1)))),
          HistogramFamily ''request_duration_seconds'' ''Duration of requests in seconds''
            (hBuckets (requestDuration ((step env ^^ n) (go_updateMetrics w1))))
            (hSum (requestDuration ((step env ^^ n) (go_updateMetrics w1))))
            (hCount (requestDuration ((step env ^^ n) (go_updateMetrics w1))))]"
proof -
  note fr = steps_frame [where env = env and n = n and w = "go_updateMetrics w1"]
  have "registry ((step env ^^ n) (go_updateMetrics w1)) =
          map Preregistered (preregistered env) @ [RequestsTotal, RequestDuration]"
    using fr by (simp add: started [OF assms])
  moreover have "cDesc (requestsTotal ((step env ^^ n) (go_updateMetrics w1))) =
      \<lparr>fqName = ''requests_total'', helpText = ''Total number of requests''\<rparr>"
    using fr by (simp add: started [OF assms] NewCounter_def)
  moreover have "hDesc (requestDuration ((step env ^^ n) (go_updateMetrics w1))) =
      \<lparr>fqName = ''request_duration_seconds'', helpText = ''Duration of requests in seconds''\<rparr>"
    using fr by (simp add: started [OF assms] NewHistogram_def)
  ultimately show ?thesis
    by (simp add: Gather_def comp_def)
qed

lemma program_Serving:
  "program env = Serving srv w0 \<Longrightarrow>
   (\<exists>w1. init (boot env) = Inr w1 \<and> w0 = go_updateMetrics w1) \<and>
   srv = \<lparr>addr = '':8080'', mux = [(''/metrics'', MetricsHandler)]\<rparr> \<and>
   '':8080'' \<notin> set (busy env)"
  by (auto simp: program_def main_def ListenAndServe_def Handle_def Let_def
        split: sum.splits if_splits option.splits)

lemma ServeHTTP_metrics:
  "ServeHTTP \<lparr>addr = a, mux = [(''/metrics'', MetricsHandler)]\<rparr> w rq =
     (if reqPath rq = ''/metrics'' then Some \<lparr>status = 200, respBody = Gather w\<rparr> else None)"
  by (simp add: ServeHTTP_def)

lemma init_exampleEnv: "init (boot exampleEnv) = Inr exampleInit"
  by (simp add: init_def MustRegister_def Register_def boot_def NewCounter_def NewHistogram_def
        exampleEnv_def exampleInit_def)

lemma program_exampleEnv:
  "program exampleEnv =
     Serving \<lparr>addr = '':8080'', mux = [(''/metrics'', MetricsHandler)]\<rparr> (go_updateMetrics exampleInit)"
proof -
  have "busy exampleEnv = []"
    by (simp add: exampleEnv_def)
  then show ?thesis
    by (simp add: program_def init_exampleEnv main_def ListenAndServe_def Handle_def)
qed

subsection \<open>Observations above every boundary\<close>

lemma Observe_above:
  "10 < v \<Longrightarrow> hBuckets h = map (\<lambda>b. (b, 0)) DefBuckets \<Longrightarrow>
   hBuckets (Observe v h) = map (\<lambda>b. (b, 0)) DefBuckets"
  by (simp add: Observe_def DefBuckets_def)

lemma reading_above:
  "10 * Second < t \<Longrightarrow> 10 < real_of_int t / 1000000000"
  by (simp add: Second_def)

lemma buckets_step:
  "10 < real_of_int (now env (slept w)) / 1000000000 \<Longrightarrow>
   hBuckets (requestDuration w) = map (\<lambda>b. (b, 0)) DefBuckets \<Longrightarrow>
   hBuckets (requestDuration (step env w)) = map (\<lambda>b. (b, 0)) DefBuckets"
  by (cases "pc w") (simp_all add: step_def Let_def Observe_above)

lemma buckets_steps:
  assumes "\<forall>i. 10 * Second < now env i"
    and "hBuckets (requestDuration w) = map (\<lambda>b. (b, 0)) DefBuckets"
  shows "hBuckets (requestDuration ((step env ^^ n) w)) = map (\<lambda>b. (b, 0)) DefBuckets"
proof (induction n)
  case 0
  show ?case using assms(2) by simp
next
  case (Suc n)
  have "10 < real_of_int (now env (slept ((step env ^^ n) w))) / 1000000000"
    using assms(1) reading_above by blast
  then show ?case
    using Suc by (simp add: buckets_step)
qed

section \<open>The claims\<close>

text \<open>
  C1. With the loop as the only writer, one pass through the loop body adds exactly 1 to the
  counter \<^verbatim>\<open>requests_total\<close> and no statement of the loop ever lowers it; after \<open>N\<close>
  completed passes of the loop that \<^verbatim>\<open>main\<close> started, the counter reads exactly \<open>N\<close>; and a
  scrape of \<^verbatim>\<open>/metrics\<close> after \<open>N\<close> passes shows the one family of that name with the
  value \<open>N\<close>.
\<close>

theorem C1_counter_equals_cycles:
  "(pc w = AtInc \<longrightarrow> cValue (requestsTotal (body env w)) = cValue (requestsTotal w) + 1) \<and>
   cValue (requestsTotal w) \<le> cValue (requestsTotal (step env w)) \<and>
   (init (boot env) = Inr w1 \<longrightarrow>
      cValue (requestsTotal ((body env ^^ N) (go_updateMetrics w1))) = N) \<and>
   (program env = Serving srv w0 \<longrightarrow>
      ''requests_total'' \<notin> set (preregistered env) \<and>
      ServeHTTP srv ((body env ^^ N) w0) \<lparr>reqMethod = ''GET'', reqPath = ''/metrics''\<rparr> =
        Some \<lparr>status = 200,
              respBody =
                map OtherFamily (preregistered env) @
                [CounterFamily ''requests_total'' ''Total number of requests'' N,
                 HistogramFamily ''request_duration_seconds'' ''Duration of requests in seconds''
                   (hBuckets (requestDuration ((body env ^^ N) w0)))
                   (hSum (requestDuration ((body env ^^ N) w0))) N]\<rparr>)"
proof -
  have a: "cValue (requestsTotal (body env w)) = cValue (requestsTotal w) + 1" if "pc w = AtInc"
    using that by (simp add: body_AtInc Inc_def)
  have b: "cValue (requestsTotal w) \<le> cValue (requestsTotal (step env w))"
    by (rule cValue_step_mono)
  have c: "cValue (requestsTotal ((body env ^^ N) (go_updateMetrics w1))) = N"
    if i: "init (boot env) = Inr w1" for w1
    using cValue_cycles [OF started(1) [OF i], where env = env and n = N] started_values(1) [OF i]
    by simp
  have d: "''requests_total'' \<notin> set (preregistered env) \<and>
      ServeHTTP srv ((body env ^^ N) w0) \<lparr>reqMethod = ''GET'', reqPath = ''/metrics''\<rparr> =
        Some \<lparr>status = 200,
              respBody =
                map OtherFamily (preregistered env) @
                [CounterFamily ''requests_total'' ''Total number of requests'' N,
                 HistogramFamily ''request_duration_seconds'' ''Duration of requests in seconds''
                   (hBuckets (requestDuration ((body env ^^ N) w0)))
                   (hSum (requestDuration ((body env ^^ N) w0))) N]\<rparr>"
    if serving: "program env = Serving srv w0"
  proof -
    from program_Serving [OF serving] obtain w1' where
      i: "init (boot env) = Inr w1'" and w0: "w0 = go_updateMetrics w1'"
      and srv: "srv = \<lparr>addr = '':8080'', mux = [(''/metrics'', MetricsHandler)]\<rparr>"
      by blast
    have fresh: "''requests_total'' \<notin> set (preregistered env)"
      using init_boot [OF i] by simp
    have cv: "cValue (requestsTotal ((body env ^^ N) w0)) = N"
      unfolding w0 by (rule c [OF i])
    have hc: "hCount (requestDuration ((body env ^^ N) w0)) = N"
      unfolding w0
      using hCount_cycles [OF started(1) [OF i], where env = env and n = N] started_values(2) [OF i]
      by simp
    have "Gather ((body env ^^ N) w0) =
         map OtherFamily (preregistered env) @
         [CounterFamily ''requests_total'' ''Total number of requests'' N,
          HistogramFamily ''request_duration_seconds'' ''Duration of requests in seconds''
            (hBuckets (requestDuration ((body env ^^ N) w0)))
            (hSum (requestDuration ((body env ^^ N) w0))) N]"
      using Gather_steps [OF i, where n = "3 * N"] cv hc by (simp add: body_steps w0)
    then show ?thesis
      using fresh by (simp add: srv ServeHTTP_metrics)
  qed
  from a b c d show ?thesis by blast
qed

theorem C1_witness:
  "pc (go_updateMetrics exampleInit) = AtInc \<and>
   cValue (requestsTotal (body exampleEnv (go_updateMetrics exampleInit))) = 1 \<and>
   cValue (requestsTotal ((body exampleEnv ^^ 2) (go_updateMetrics exampleInit))) = 2 \<and>
   (\<exists>bs s.
      ServeHTTP \<lparr>addr = '':8080'', mux = [(''/metrics'', MetricsHandler)]\<rparr>
        ((body exampleEnv ^^ 2) (go_updateMetrics exampleInit))
        \<lparr>reqMethod = ''GET'', reqPath = ''/metrics''\<rparr> =
      Some \<lparr>status = 200,
            respBody =
              [OtherFamily ''go_goroutines'',
               CounterFamily ''requests_total'' ''Total number of requests'' 2,
               HistogramFamily ''request_duration_seconds'' ''Duration of requests in seconds''
                 bs s 2]\<rparr>)"
proof -
  note inst =
    C1_counter_equals_cycles [where env = exampleEnv and N = 2 and ?w1.0 = exampleInit
      and w = "go_updateMetrics exampleInit"
      and srv = "\<lparr>addr = '':8080'', mux = [(''/metrics'', MetricsHandler)]\<rparr>"
      and ?w0.0 = "go_updateMetrics exampleInit"]
  have pre: "preregistered exampleEnv = [''go_goroutines'']"
    by (simp add: exampleEnv_def)
  have start: "pc (go_updateMetrics exampleInit) = AtInc"
    "cValue (requestsTotal (go_updateMetrics exampleInit)) = 0"
    by (simp_all add: go_updateMetrics_def exampleInit_def boot_def NewCounter_def)
  show ?thesis
    using inst program_exampleEnv init_exampleEnv start by (simp add: pre)
qed

text \<open>
  C2. One observation of a value \<open>v\<close> keeps every bucket boundary, adds exactly 1 to the
  cumulative count of every bucket whose boundary is at least \<open>v\<close>, leaves the count of every
  bucket whose boundary is below \<open>v\<close> as it was, adds \<open>v\<close> to the running sum and 1 to the
  total count. The second statement of the loop is one such observation, of the clock reading
  in seconds.
\<close>

theorem C2_observe_buckets:
  "length (hBuckets (Observe v h)) = length (hBuckets h) \<and>
   (\<forall>i < length (hBuckets h).
      fst (hBuckets (Observe v h) ! i) = fst (hBuckets h ! i) \<and>
      (v \<le> fst (hBuckets h ! i) \<longrightarrow>
         snd (hBuckets (Observe v h) ! i) = snd (hBuckets h ! i) + 1) \<and>
      (fst (hBuckets h ! i) < v \<longrightarrow>
         snd (hBuckets (Observe v h) ! i) = snd (hBuckets h ! i))) \<and>
   hSum (Observe v h) = hSum h + v \<and>
   hCount (Observe v h) = hCount h + 1 \<and>
   (pc w = AtObserve \<longrightarrow>
      requestDuration (step env w) =
        Observe (real_of_int (now env (slept w)) / 1000000000) (requestDuration w))"
  by (simp add: Observe_def case_prod_beta step_def Let_def)

theorem C2_witness:
  "fst (hBuckets (requestDuration exampleInit) ! 5) < 3 / 10 \<and>
   snd (hBuckets (Observe (3 / 10) (requestDuration exampleInit)) ! 5) = 0 \<and>
   3 / 10 \<le> fst (hBuckets (requestDuration exampleInit) ! 6) \<and>
   snd (hBuckets (Observe (3 / 10) (requestDuration exampleInit)) ! 6) = 1 \<and>
   hSum (Observe (3 / 10) (requestDuration exampleInit)) = 3 / 10 \<and>
   hCount (Observe (3 / 10) (requestDuration exampleInit)) = 1"
proof -
  let ?h = "requestDuration exampleInit"
  note inst = C2_observe_buckets [where v = "3 / 10" and h = ?h]
  have len: "length (hBuckets ?h) = 11"
    by (simp add: exampleInit_def boot_def NewHistogram_def DefBuckets_def)
  have b5: "hBuckets ?h ! 5 = (25 / 100, 0)" and b6: "hBuckets ?h ! 6 = (5 / 10, 0)"
    by (simp_all add: exampleInit_def boot_def NewHistogram_def DefBuckets_def)
  have z: "hSum ?h = 0" "hCount ?h = 0"
    by (simp_all add: exampleInit_def boot_def NewHistogram_def)
  have "snd (hBuckets (Observe (3 / 10) ?h) ! 5) = snd (hBuckets ?h ! 5)"
    using inst len b5 by simp
  moreover have "snd (hBuckets (Observe (3 / 10) ?h) ! 6) = snd (hBuckets ?h ! 6) + 1"
    using inst len b6 by simp
  moreover have "hSum (Observe (3 / 10) ?h) = 3 / 10" "hCount (Observe (3 / 10) ?h) = 1"
    using inst z by simp_all
  ultimately show ?thesis
    using b5 b6 by simp
qed

text \<open>
  C3. Registering a collector under a name the registry already holds panics with the
  duplicate-registration error, and so does registering the same collector a second time. The
  panic of the first call of \<^verbatim>\<open>init\<close> is the result of \<^verbatim>\<open>init\<close>: nothing swallows it
  and no second attempt is made. When \<^verbatim>\<open>init\<close> panics the process halts with that error
  and exit status 2, and \<^verbatim>\<open>main\<close>, hence the listener, is never reached; this is what
  happens when either of the program's two names is already taken.
\<close>

theorem C3_duplicate_registration_is_fatal:
  "(describe w c \<in> set (map (describe w) (registry w)) \<longrightarrow>
      MustRegister c w = Inl (Panic (AlreadyRegisteredError (describe w c)))) \<and>
   (MustRegister c w = Inr w' \<longrightarrow>
      MustRegister c w' = Inl (Panic (AlreadyRegisteredError (describe w c)))) \<and>
   (MustRegister RequestsTotal w = Inl h \<longrightarrow> init w = Inl h) \<and>
   (init (boot env) = Inl h \<longrightarrow>
      program env = Halted h \<and> exitStatus h = 2 \<and> (\<exists>n. h = Panic (AlreadyRegisteredError n))) \<and>
   (''requests_total'' \<in> set (preregistered env) \<longrightarrow>
      program env = Halted (Panic (AlreadyRegisteredError ''requests_total''))) \<and>
   (''requests_total'' \<notin> set (preregistered env) \<and>
    ''request_duration_seconds'' \<in> set (preregistered env) \<longrightarrow>
      program env = Halted (Panic (AlreadyRegisteredError ''request_duration_seconds'')))"
proof -
  have "MustRegister RequestsTotal w = Inl h \<longrightarrow> init w = Inl h"
    by (simp add: init_def)
  moreover have "init (boot env) = Inl h \<longrightarrow>
      program env = Halted h \<and> exitStatus h = 2 \<and> (\<exists>n. h = Panic (AlreadyRegisteredError n))"
    using init_Inl [where w = "boot env" and h = h] by (simp add: program_def)
  moreover have "''requests_total'' \<in> set (preregistered env) \<longrightarrow>
      program env = Halted (Panic (AlreadyRegisteredError ''requests_total''))"
    by (simp add: program_def init_first_duplicate)
  moreover have "''requests_total'' \<notin> set (preregistered env) \<and>
    ''request_duration_seconds'' \<in> set (preregistered env) \<longrightarrow>
      program env = Halted (Panic (AlreadyRegisteredError ''request_duration_seconds''))"
    by (simp add: program_def init_second_duplicate)
  ultimately show ?thesis
    using MustRegister_duplicate [where w = w and c = c]
          MustRegister_twice [where w = w and c = c and w' = w']
    by blast
qed

theorem C3_witness:
  "''requests_total'' \<in> set (preregistered (exampleEnv\<lparr>preregistered := [''requests_total'']\<rparr>)) \<and>
   program (exampleEnv\<lparr>preregistered := [''requests_total'']\<rparr>) =
     Halted (Panic (AlreadyRegisteredError ''requests_total'')) \<and>
   exitStatus (Panic (AlreadyRegisteredError ''requests_total'')) = 2 \<and>
   MustRegister RequestsTotal (boot exampleEnv) = Inr ((boot exampleEnv)\<lparr>registry := [Preregistered ''go_goroutines'', RequestsTotal]\<rparr>) \<and>
   MustRegister RequestsTotal ((boot exampleEnv)\<lparr>registry := [Preregistered ''go_goroutines'', RequestsTotal]\<rparr>) =
     Inl (Panic (AlreadyRegisteredError ''requests_total''))"
proof -
  let ?env = "exampleEnv\<lparr>preregistered := [''requests_total'']\<rparr>"
  let ?w' = "(boot exampleEnv)\<lparr>registry := [Preregistered ''go_goroutines'', RequestsTotal]\<rparr>"
  have dup: "''requests_total'' \<in> set (preregistered ?env)"
    by simp
  then have halted: "program ?env = Halted (Panic (AlreadyRegisteredError ''requests_total''))"
    using C3_duplicate_registration_is_fatal [where env = ?env] by blast
  have once: "MustRegister RequestsTotal (boot exampleEnv) = Inr ?w'"
    by (simp add: MustRegister_def Register_def boot_def NewCounter_def exampleEnv_def)
  have name: "describe (boot exampleEnv) RequestsTotal = ''requests_total''"
    by (simp add: boot_def NewCounter_def)
  have "MustRegister RequestsTotal ?w' = Inl (Panic (AlreadyRegisteredError ''requests_total''))"
    using C3_duplicate_registration_is_fatal
            [where w = "boot exampleEnv" and c = RequestsTotal and w' = ?w'] once name
    by simp
  then show ?thesis
    using dup halted once by simp
qed

text \<open>
  C4. When the address \<^verbatim>\<open>:8080\<close> cannot be bound, \<^verbatim>\<open>main\<close> halts through
  \<^verbatim>\<open>log.Fatal\<close> with the bind error as the printed message and exit status 1, whatever
  the state of the instruments; the process as a whole halts with a non-zero status and does not
  serve.
\<close>

theorem C4_bind_failure_is_fatal:
  assumes "'':8080'' \<in> set (busy env)"
  shows "main env w = Halted (Fatal (BindError '':8080'')) \<and>
         exitStatus (Fatal (BindError '':8080'')) = 1 \<and>
         printed (Fatal (BindError '':8080'')) = BindError '':8080'' \<and>
         (\<exists>h. program env = Halted h \<and> exitStatus h \<noteq> 0)"
proof -
  have m: "main env w' = Halted (Fatal (BindError '':8080''))" for w'
    using assms by (simp add: main_def ListenAndServe_def Let_def)
  have "\<exists>h. program env = Halted h \<and> exitStatus h \<noteq> 0"
  proof (cases "init (boot env)")
    case (Inl h)
    then show ?thesis
      using init_Inl [OF Inl] by (auto simp: program_def)
  next
    case (Inr w')
    then show ?thesis
      by (simp add: program_def m)
  qed
  with m show ?thesis by simp
qed

theorem C4_witness:
  "'':8080'' \<in> set (busy (exampleEnv\<lparr>busy := ['':8080'']\<rparr>)) \<and>
   program (exampleEnv\<lparr>busy := ['':8080'']\<rparr>) = Halted (Fatal (BindError '':8080''))"
proof -
  let ?env = "exampleEnv\<lparr>busy := ['':8080'']\<rparr>"
  have b: "'':8080'' \<in> set (busy ?env)"
    by simp
  have "boot ?env = boot exampleEnv"
    by (simp add: boot_def)
  then have "init (boot ?env) = Inr exampleInit"
    by (simp add: init_exampleEnv)
  then show ?thesis
    using b C4_bind_failure_is_fatal [OF b] by (simp add: program_def)
qed

text \<open>
  C6. When the process serves, a request for \<^verbatim>\<open>/metrics\<close> answered in the world in which
  the loop has just been started and has not run any statement yet (it stands at its first
  statement and its trace is empty) has status 200 and shows \<^verbatim>\<open>requests_total\<close> with
  value 0 and \<^verbatim>\<open>request_duration_seconds\<close> with every bucket count, the sum and the total
  count 0.
\<close>

theorem C6_initial_scrape:
  assumes "program env = Serving srv w0"
  shows "ServeHTTP srv w0 \<lparr>reqMethod = ''GET'', reqPath = ''/metrics''\<rparr> =
           Some \<lparr>status = 200,
                 respBody =
                   map OtherFamily (preregistered env) @
                   [CounterFamily ''requests_total'' ''Total number of requests'' 0,
                    HistogramFamily ''request_duration_seconds'' ''Duration of requests in seconds''
                      (map (\<lambda>b. (b, 0)) DefBuckets) 0 0]\<rparr> \<and>
         cValue (requestsTotal w0) = 0 \<and>
         hCount (requestDuration w0) = 0 \<and>
         pc w0 = AtInc \<and>
         trace w0 = []"
proof -
  from program_Serving [OF assms] obtain w1 where
    i: "init (boot env) = Inr w1" and w0: "w0 = go_updateMetrics w1"
    and srv: "srv = \<lparr>addr = '':8080'', mux = [(''/metrics'', MetricsHandler)]\<rparr>"
    by blast
  note st = started [OF i] started_values [OF i]
  have "Gather w0 =
         map OtherFamily (preregistered env) @
         [CounterFamily ''requests_total'' ''Total number of requests'' 0,
          HistogramFamily ''request_duration_seconds'' ''Duration of requests in seconds''
            (map (\<lambda>b. (b, 0)) DefBuckets) 0 0]"
    using Gather_steps [OF i, where n = 0] st by (simp add: w0)
  then show ?thesis
    using st by (simp add: srv w0 ServeHTTP_metrics)
qed

theorem C6_witness:
  "ServeHTTP \<lparr>addr = '':8080'', mux = [(''/metrics'', MetricsHandler)]\<rparr>
     (go_updateMetrics exampleInit) \<lparr>reqMethod = ''GET'', reqPath = ''/metrics''\<rparr> =
   Some \<lparr>status = 200,
         respBody =
           [OtherFamily ''go_goroutines'',
            CounterFamily ''requests_total'' ''Total number of requests'' 0,
            HistogramFamily ''request_duration_seconds'' ''Duration of requests in seconds''
              (map (\<lambda>b. (b, 0)) DefBuckets) 0 0]\<rparr> \<and>
   trace (go_updateMetrics exampleInit) = []"
  using C6_initial_scrape [OF program_exampleEnv] by (simp add: exampleEnv_def)

text \<open>
  C7. Every pass through the loop body increments the counter by 1, then records one
  observation whose value is the clock reading of that pass in nanoseconds divided by
  \<open>10\<^sup>9\<close>, then asks to sleep for 5 seconds (5000000000 nanoseconds), in that order: the
  trace of \<open>n\<close> passes of the loop that \<^verbatim>\<open>main\<close> started is these three events, \<open>n\<close>
  times over. The first statement touches the counter only, the second the histogram only, the
  third neither, and the pass ends where it began, at the increment. The loop itself never
  returns, and no statement of it has an error result.
\<close>

theorem C7_cycle_order_and_divergence:
  "(init (boot env) = Inr w1 \<longrightarrow>
      trace ((body env ^^ n) (go_updateMetrics w1)) =
        concat (map (\<lambda>i. [IncEv, ObserveEv (real_of_int (now env i) / 1000000000),
                            SleepEv 5000000000]) [0..<n])) \<and>
   (pc w = AtInc \<longrightarrow>
      requestsTotal (step env w) = Inc (requestsTotal w) \<and>
      requestDuration (step env w) = requestDuration w \<and>
      requestsTotal (step env (step env w)) = Inc (requestsTotal w) \<and>
      requestDuration (step env (step env w)) =
        Observe (real_of_int (now env (slept w)) / 1000000000) (requestDuration w) \<and>
      requestsTotal (body env w) = Inc (requestsTotal w) \<and>
      requestDuration (body env w) =
        Observe (real_of_int (now env (slept w)) / 1000000000) (requestDuration w) \<and>
      trace (body env w) =
        trace w @ [IncEv, ObserveEv (real_of_int (now env (slept w)) / 1000000000),
                   SleepEv 5000000000] \<and>
      pc (body env w) = AtInc) \<and>
   updateMetrics env w = None"
proof -
  have "trace ((body env ^^ n) (go_updateMetrics w1)) =
     concat (map (\<lambda>i. [IncEv, ObserveEv (real_of_int (now env i) / 1000000000),
                         SleepEv 5000000000]) [0..<n])"
    if i: "init (boot env) = Inr w1"
    using trace_cycles [OF started(1) [OF i], where env = env and n = n] started(2,3) [OF i]
    by (simp add: Second_def)
  moreover have "updateMetrics env w = None"
    by (rule updateMetrics_never_returns)
  ultimately show ?thesis
    by (simp add: body_def step_def Let_def Second_def)
qed

theorem C7_witness:
  "pc (go_updateMetrics exampleInit) = AtInc \<and>
   trace ((body exampleEnv ^^ 2) (go_updateMetrics exampleInit)) =
     [IncEv, ObserveEv 1700000000, SleepEv 5000000000,
      IncEv, ObserveEv 1700000005, SleepEv 5000000000] \<and>
   pc (body exampleEnv (go_updateMetrics exampleInit)) = AtInc \<and>
   updateMetrics exampleEnv (go_updateMetrics exampleInit) = None"
proof -
  note inst =
    C7_cycle_order_and_divergence [where env = exampleEnv and n = 2 and ?w1.0 = exampleInit
      and w = "go_updateMetrics exampleInit"]
  have start: "pc (go_updateMetrics exampleInit) = AtInc"
    by (simp add: go_updateMetrics_def)
  have clock: "now exampleEnv 0 = 1700000000000000000" "now exampleEnv (Suc 0) = 1700000005000000000"
    by (simp_all add: exampleEnv_def)
  have "trace ((body exampleEnv ^^ 2) (go_updateMetrics exampleInit)) =
     concat (map (\<lambda>i. [IncEv, ObserveEv (real_of_int (now exampleEnv i) / 1000000000),
                         SleepEv 5000000000]) [0..<2])"
    using inst init_exampleEnv by blast
  then have tr: "trace ((body exampleEnv ^^ 2) (go_updateMetrics exampleInit)) =
     [IncEv, ObserveEv 1700000000, SleepEv 5000000000,
      IncEv, ObserveEv 1700000005, SleepEv 5000000000]"
    by (simp add: numeral_2_eq_2 clock)
  have "pc (body exampleEnv (go_updateMetrics exampleInit)) = AtInc"
    using inst start by blast
  moreover have "updateMetrics exampleEnv (go_updateMetrics exampleInit) = None"
    using inst by blast
  ultimately show ?thesis
    using start tr by blast
qed

text \<open>
  C8. When the process serves, it listens on \<^verbatim>\<open>:8080\<close> with the single pattern
  \<^verbatim>\<open>/metrics\<close>: a request reaches a handler of the program exactly when its path is
  \<^verbatim>\<open>/metrics\<close>. In every world the loop reaches, the answer to \<^verbatim>\<open>GET /metrics\<close> has
  status 200 and a body that lists, after the library's own collectors, the counter
  \<^verbatim>\<open>requests_total\<close> with help text "Total number of requests" and the histogram
  \<^verbatim>\<open>request_duration_seconds\<close> with help text "Duration of requests in seconds", whose
  boundaries are the default set: ascending, from 0.005 to 10.
\<close>

theorem C8_http_surface:
  assumes "program env = Serving srv w0"
  shows "addr srv = '':8080'' \<and>
         map fst (mux srv) = [''/metrics''] \<and>
         (ServeHTTP srv w rq = None \<longleftrightarrow> reqPath rq \<noteq> ''/metrics'') \<and>
         ServeHTTP srv ((step env ^^ n) w0) \<lparr>reqMethod = ''GET'', reqPath = ''/metrics''\<rparr> =
           Some \<lparr>status = 200,
                 respBody =
                   map OtherFamily (preregistered env) @
                   [CounterFamily ''requests_total'' ''Total number of requests''
                      (cValue (requestsTotal ((step env ^^ n) w0))),
                    HistogramFamily ''request_duration_seconds'' ''Duration of requests in seconds''
                      (hBuckets (requestDuration ((step env ^^ n) w0)))
                      (hSum (requestDuration ((step env ^^ n) w0)))
                      (hCount (requestDuration ((step env ^^ n) w0)))]\<rparr> \<and>
         map fst (hBuckets (requestDuration ((step env ^^ n) w0))) = DefBuckets \<and>
         hd DefBuckets = 5 / 1000 \<and>
         last DefBuckets = 10 \<and>
         sorted DefBuckets"
proof -
  from program_Serving [OF assms] obtain w1 where
    i: "init (boot env) = Inr w1" and w0: "w0 = go_updateMetrics w1"
    and srv: "srv = \<lparr>addr = '':8080'', mux = [(''/metrics'', MetricsHandler)]\<rparr>"
    by blast
  have "map fst (hBuckets (requestDuration w0)) = DefBuckets"
    by (simp add: w0 started_values [OF i] comp_def)
  then have bounds: "map fst (hBuckets (requestDuration ((step env ^^ n) w0))) = DefBuckets"
    by (simp add: bounds_steps)
  have g: "Gather ((step env ^^ n) w0) =
         map OtherFamily (preregistered env) @
         [CounterFamily ''requests_total'' ''Total number of requests''
            (cValue (requestsTotal ((step env ^^ n) w0))),
          HistogramFamily ''request_duration_seconds'' ''Duration of requests in seconds''
            (hBuckets (requestDuration ((step env ^^ n) w0)))
            (hSum (requestDuration ((step env ^^ n) w0)))
            (hCount (requestDuration ((step env ^^ n) w0)))]"
    unfolding w0 by (rule Gather_steps [OF i])
  have d: "hd DefBuckets = 5 / 1000" "last DefBuckets = 10" "sorted DefBuckets"
    by (simp_all add: DefBuckets_def)
  show ?thesis
    using bounds g d by (simp add: srv ServeHTTP_metrics)
qed

theorem C8_witness:
  "addr \<lparr>addr = '':8080'', mux = [(''/metrics'', MetricsHandler)]\<rparr> = '':8080'' \<and>
   ServeHTTP \<lparr>addr = '':8080'', mux = [(''/metrics'', MetricsHandler)]\<rparr>
     (go_updateMetrics exampleInit) \<lparr>reqMethod = ''GET'', reqPath = ''/''\<rparr> = None \<and>
   map fst (hBuckets (requestDuration ((step exampleEnv ^^ 2) (go_updateMetrics exampleInit)))) =
     DefBuckets"
  using C8_http_surface [OF program_exampleEnv, where n = 2
          and w = "go_updateMetrics exampleInit"
          and rq = "\<lparr>reqMethod = ''GET'', reqPath = ''/''\<rparr>"]
  by simp

text \<open>
  C9. Provided every clock reading is later than 10 seconds after the epoch (a present-day
  reading is of the order of \<open>10\<^sup>9\<close> seconds), every observation lies above every
  default boundary, the largest of which is 10. Then, in every state reached by the loop that
  \<^verbatim>\<open>main\<close> started, each finite bucket of \<^verbatim>\<open>request_duration_seconds\<close> still has the
  count 0, while after \<open>N\<close> passes the total count (the bucket \<^verbatim>\<open>+Inf\<close>) is \<open>N\<close> and the
  sum is the sum of the \<open>N\<close> readings.
\<close>

theorem C9_finite_buckets_stay_empty:
  assumes "\<forall>i. 10 * Second < now env i"
    and "init (boot env) = Inr w1"
  shows "(\<forall>b \<in> set DefBuckets. b \<le> 10 \<and> b < real_of_int (now env i) / 1000000000) \<and>
         hBuckets (requestDuration ((step env ^^ n) (go_updateMetrics w1))) =
           map (\<lambda>b. (b, 0)) DefBuckets \<and>
         (\<forall>bc \<in> set (hBuckets (requestDuration ((step env ^^ n) (go_updateMetrics w1)))).
            snd bc = 0) \<and>
         hCount (requestDuration ((body env ^^ N) (go_updateMetrics w1))) = N \<and>
         hSum (requestDuration ((body env ^^ N) (go_updateMetrics w1))) =
           (\<Sum>i<N. real_of_int (now env i) / 1000000000)"
proof -
  note st = started [OF assms(2)] started_values [OF assms(2)]
  have above: "10 < real_of_int (now env i) / 1000000000"
    using assms(1) reading_above by blast
  have bounds: "\<forall>b \<in> set DefBuckets. b \<le> 10"
    by (simp add: DefBuckets_def)
  have b: "hBuckets (requestDuration ((step env ^^ n) (go_updateMetrics w1))) =
             map (\<lambda>b. (b, 0)) DefBuckets"
    by (rule buckets_steps [OF assms(1) st(10)])
  have z: "\<forall>bc \<in> set (hBuckets (requestDuration ((step env ^^ n) (go_updateMetrics w1)))).
             snd bc = 0"
    unfolding b by auto
  have c: "hCount (requestDuration ((body env ^^ N) (go_updateMetrics w1))) = N"
    using hCount_cycles [OF st(1), where env = env and n = N] st(8) by simp
  have s: "hSum (requestDuration ((body env ^^ N) (go_updateMetrics w1))) =
           (\<Sum>i<N. real_of_int (now env i) / 1000000000)"
    using hSum_cycles [OF st(1), where env = env and n = N] st(2,9) by simp
  from above bounds have "\<forall>b \<in> set DefBuckets. b \<le> 10 \<and> b < real_of_int (now env i) / 1000000000"
    by fastforce
  with b z c s show ?thesis by blast
qed

theorem C9_witness:
  "(\<forall>i. 10 * Second < now exampleEnv i) \<and>
   hBuckets (requestDuration ((step exampleEnv ^^ 5) (go_updateMetrics exampleInit))) =
     map (\<lambda>b. (b, 0)) DefBuckets \<and>
   hCount (requestDuration ((body exampleEnv ^^ 3) (go_updateMetrics exampleInit))) = 3"
proof -
  have clock: "\<forall>i. 10 * Second < now exampleEnv i"
    by (simp add: exampleEnv_def Second_def)
  show ?thesis
    using clock C9_finite_buckets_stay_empty [OF clock init_exampleEnv, where n = 5 and N = 3]
    by blast
qed

text \<open>
  C10. The loop that \<^verbatim>\<open>main\<close> started mutates before it sleeps. Two statements after its
  start it stands at its first sleep with one increment and one observation done and no sleep
  completed; in general, \<open>3 * k + 2\<close> statements after its start it stands at a sleep,
  \<open>k\<close> sleeps have completed and \<open>k + 1\<close> increments and \<open>k + 1\<close> observations have
  been made. In every state the loop reaches, the counter is the number of completed sleeps,
  plus one unless the loop stands at the increment; the observation count is the number of
  completed sleeps, plus one when the loop stands at the sleep.
\<close>

theorem C10_first_mutation_precedes_first_sleep:
  assumes "init (boot env) = Inr w1"
  shows "pc ((step env ^^ (3 * k + 2)) (go_updateMetrics w1)) = AtSleep \<and>
         slept ((step env ^^ (3 * k + 2)) (go_updateMetrics w1)) = k \<and>
         cValue (requestsTotal ((step env ^^ (3 * k + 2)) (go_updateMetrics w1))) = k + 1 \<and>
         hCount (requestDuration ((step env ^^ (3 * k + 2)) (go_updateMetrics w1))) = k + 1 \<and>
         cValue (requestsTotal ((step env ^^ n) (go_updateMetrics w1))) =
           slept ((step env ^^ n) (go_updateMetrics w1)) +
           (if pc ((step env ^^ n) (go_updateMetrics w1)) = AtInc then 0 else 1) \<and>
         hCount (requestDuration ((step env ^^ n) (go_updateMetrics w1))) =
           slept ((step env ^^ n) (go_updateMetrics w1)) +
           (if pc ((step env ^^ n) (go_updateMetrics w1)) = AtSleep then 1 else 0)"
proof -
  note st = started [OF assms] started_values [OF assms]
  note counts = loop_counts [OF st(1) st(2) st(7) st(8), where env = env]
  show ?thesis
    using counts [where n = "3 * k + 2"] counts [where n = n]
          pc_slept_steps [OF st(1) st(2), where env = env and k = k]
    by simp
qed

theorem C10_witness:
  "pc ((step exampleEnv ^^ 2) (go_updateMetrics exampleInit)) = AtSleep \<and>
   slept ((step exampleEnv ^^ 2) (go_updateMetrics exampleInit)) = 0 \<and>
   cValue (requestsTotal ((step exampleEnv ^^ 2) (go_updateMetrics exampleInit))) = 1 \<and>
   hCount (requestDuration ((step exampleEnv ^^ 2) (go_updateMetrics exampleInit))) = 1 \<and>
   slept ((step exampleEnv ^^ 5) (go_updateMetrics exampleInit)) = 1 \<and>
   cValue (requestsTotal ((step exampleEnv ^^ 5) (go_updateMetrics exampleInit))) = 2"
  using C10_first_mutation_precedes_first_sleep [OF init_exampleEnv, where k = 0 and n = 0]
        C10_first_mutation_precedes_first_sleep [OF init_exampleEnv, where k = 1 and n = 0]
  by (simp add: numeral_2_eq_2)

end
